theory Spec2Isabelle
  imports Main
begin

section \<open>Python values and keyword arguments\<close>

text \<open>
  The module \<^verbatim>\<open>applications.py\<close> is one class, \<^verbatim>\<open>FastAPIApp\<close>, that
  owns a \<^verbatim>\<open>fastapi.FastAPI\<close> object and forwards calls to it. Python does not
  enforce the type hints of the signatures, so every argument is an arbitrary value.
\<close>

datatype pyval =
    PyNone
  | PyBool bool
  | PyInt int
  | PyStr string
  | PySeq "pyval list"
  | PyDict "(string \<times> pyval) list"

text \<open>A dictionary of keyword arguments (\<^verbatim>\<open>**kwargs\<close>).\<close>

type_synonym kwargs = "string \<rightharpoonup> pyval"

section \<open>The underlying framework\<close>

text \<open>
  The classes handed to \<^verbatim>\<open>add_middleware\<close>: the four imported from
  \<^verbatim>\<open>fastapi.middleware\<close>, or any other class the caller names.
\<close>

datatype middleware_class =
    CORSMiddleware
  | GZipMiddleware
  | HTTPSRedirectMiddleware
  | TrustedHostMiddleware
  | OtherMiddleware string

text \<open>
  Modelled from the spec: the middleware unit and the application object of the
  underlying framework (\<^verbatim>\<open>fastapi.FastAPI\<close> is imported by the module, its code is
  not part of the repository). A unit is a middleware kind with its configuration
  mapping; the application keeps the keyword arguments it was constructed with (its
  metadata fields and extension options) and its middleware chain, the units in the
  order in which they were attached.
\<close>

record Middleware =
  cls :: middleware_class
  options :: kwargs

record FastAPI =
  init_kwargs :: kwargs
  user_middleware :: "Middleware list"

text \<open>
  What the framework rejects is not fixed by the repository, so it is a parameter: for
  the constructor and for \<^verbatim>\<open>add_middleware\<close>, the exception raised on the given
  arguments, if any. \<open>'e\<close> is the type of the framework's exceptions.
\<close>

record 'e framework =
  FastAPI_raises :: "kwargs \<Rightarrow> 'e option"
  add_middleware_raises :: "FastAPI \<Rightarrow> middleware_class \<Rightarrow> kwargs \<Rightarrow> 'e option"

text \<open>
  Objects are shared by reference, so the application objects live in a store;
  \<open>next_addr\<close> is the address the next new object gets.
\<close>

type_synonym addr = nat

record world =
  heap :: "addr \<Rightarrow> FastAPI"
  next_addr :: addr

text \<open>
  An exception seen by the caller of the wrapper: Python's \<^verbatim>\<open>AttributeError\<close> for
  an attribute that is not set, or an exception of the framework, passed on as it is.
\<close>

datatype 'e exn = AttributeError string | Raised 'e

text \<open>
  Modelled from the spec: the framework's constructor \<^verbatim>\<open>FastAPI(**kw)\<close> makes a new
  application object holding \<open>kw\<close> and an empty middleware chain, and returns the
  reference to it.
\<close>

definition FastAPI_new :: "'e framework \<Rightarrow> kwargs \<Rightarrow> world \<Rightarrow> 'e exn + (addr \<times> world)" where
  "FastAPI_new fw kw w =
     (case FastAPI_raises fw kw of
        Some e \<Rightarrow> Inl (Raised e)
      | None \<Rightarrow>
          Inr (next_addr w,
               w\<lparr>heap := (heap w)(next_addr w := \<lparr>init_kwargs = kw, user_middleware = []\<rparr>),
                 next_addr := Suc (next_addr w)\<rparr>))"

text \<open>
  Modelled from the spec: the framework's \<^verbatim>\<open>app.add_middleware(cls, **options)\<close>
  records one unit at the end of the chain of the object at address \<open>a\<close>
  (``middleware attaches in the order the caller invokes attachment calls'').
\<close>

definition app_add_middleware ::
  "'e framework \<Rightarrow> addr \<Rightarrow> middleware_class \<Rightarrow> kwargs \<Rightarrow> world \<Rightarrow> 'e exn + world" where
  "app_add_middleware fw a c kw w =
     (case add_middleware_raises fw (heap w a) c kw of
        Some e \<Rightarrow> Inl (Raised e)
      | None \<Rightarrow>
          Inr (w\<lparr>heap := (heap w)(a := (heap w a)
                 \<lparr>user_middleware := user_middleware (heap w a) @ [\<lparr>cls = c, options = kw\<rparr>]\<rparr>)\<rparr>))"

section \<open>The class \<^verbatim>\<open>FastAPIApp\<close>\<close>

text \<open>
  The wrapper object has one attribute, \<^verbatim>\<open>app\<close>, set by \<^verbatim>\<open>__init__\<close>:
  \<open>None\<close> is the object on which \<^verbatim>\<open>__init__\<close> has not run (or has raised).
\<close>

record FastAPIApp =
  app :: "addr option"

text \<open>Reading \<^verbatim>\<open>self.app\<close>.\<close>

definition self_app :: "FastAPIApp \<Rightarrow> 'e exn + addr" where
  "self_app self = (case app self of None \<Rightarrow> Inl (AttributeError ''app'') | Some a \<Rightarrow> Inr a)"

text \<open>
  A parameter with a default, called by keyword: the value given under its name,
  or the default.
\<close>

definition arg :: "kwargs \<Rightarrow> string \<Rightarrow> pyval \<Rightarrow> pyval" where
  "arg kw name dflt = (case kw name of Some v \<Rightarrow> v | None \<Rightarrow> dflt)"

text \<open>The same for a convenience method, whose parameters are given or left out one by one.\<close>

definition given :: "pyval option \<Rightarrow> pyval \<Rightarrow> pyval" where
  "given v dflt = (case v of Some x \<Rightarrow> x | None \<Rightarrow> dflt)"

text \<open>The named parameters of \<^verbatim>\<open>__init__\<close>, in the order of the signature.\<close>

definition init_params :: "string list" where
  "init_params =
     [''title'', ''description'', ''version'', ''docs_url'', ''redoc_url'', ''openapi_url'',
      ''openapi_prefix'', ''openapi_tags'', ''terms_of_service'', ''contact'', ''license_info'']"

text \<open>
  \<^verbatim>\<open>__init__(self, title="FastAPI", ..., **kwargs)\<close>, called with the keyword
  arguments \<open>kw\<close>: the named parameters are bound from \<open>kw\<close> or to their defaults,
  \<^verbatim>\<open>kwargs\<close> is what is left of \<open>kw\<close>, and \<^verbatim>\<open>self.app\<close> becomes the object
  \<^verbatim>\<open>FastAPI(title=title, ..., license_info=license_info, **kwargs)\<close>.
\<close>

definition FastAPIApp_init ::
  "'e framework \<Rightarrow> FastAPIApp \<Rightarrow> kwargs \<Rightarrow> world \<Rightarrow> 'e exn + (FastAPIApp \<times> world)" where
  "FastAPIApp_init fw self kw w =
     (let title = arg kw ''title'' (PyStr ''FastAPI'');
          description = arg kw ''description'' (PyStr '''');
          version = arg kw ''version'' (PyStr ''0.1.0'');
          docs_url = arg kw ''docs_url'' (PyStr ''/docs'');
          redoc_url = arg kw ''redoc_url'' (PyStr ''/redoc'');
          openapi_url = arg kw ''openapi_url'' (PyStr ''/openapi.json'');
          openapi_prefix = arg kw ''openapi_prefix'' (PyStr '''');
          openapi_tags = arg kw ''openapi_tags'' PyNone;
          terms_of_service = arg kw ''terms_of_service'' PyNone;
          contact = arg kw ''contact'' PyNone;
          license_info = arg kw ''license_info'' PyNone;
          kwargs = (\<lambda>k. if k \<in> set init_params then None else kw k)
      in case FastAPI_new fw
                (kwargs(''title'' \<mapsto> title,
                        ''description'' \<mapsto> description,
                        ''version'' \<mapsto> version,
                        ''docs_url'' \<mapsto> docs_url,
                        ''redoc_url'' \<mapsto> redoc_url,
                        ''openapi_url'' \<mapsto> openapi_url,
                        ''openapi_prefix'' \<mapsto> openapi_prefix,
                        ''openapi_tags'' \<mapsto> openapi_tags,
                        ''terms_of_service'' \<mapsto> terms_of_service,
                        ''contact'' \<mapsto> contact,
                        ''license_info'' \<mapsto> license_info)) w of
           Inl e \<Rightarrow> Inl e
         | Inr (a, w') \<Rightarrow> Inr (self\<lparr>app := Some a\<rparr>, w'))"

text \<open>\<^verbatim>\<open>add_middleware(self, middleware_class, **kwargs)\<close>.\<close>

definition add_middleware ::
  "'e framework \<Rightarrow> FastAPIApp \<Rightarrow> middleware_class \<Rightarrow> kwargs \<Rightarrow> world \<Rightarrow> 'e exn + world" where
  "add_middleware fw self middleware_class kwargs w =
     (case self_app self of
        Inl e \<Rightarrow> Inl e
      | Inr a \<Rightarrow> app_add_middleware fw a middleware_class kwargs w)"

text \<open>
  \<^verbatim>\<open>add_cors_middleware(self, allow_origins=("*",), allow_credentials=True,
  allow_methods=("*",), allow_headers=("*",))\<close>.
\<close>

definition add_cors_middleware ::
  "'e framework \<Rightarrow> FastAPIApp \<Rightarrow> pyval option \<Rightarrow> pyval option \<Rightarrow> pyval option \<Rightarrow> pyval option
     \<Rightarrow> world \<Rightarrow> 'e exn + world" where
  "add_cors_middleware fw self allow_origins allow_credentials allow_methods allow_headers w =
     (case self_app self of
        Inl e \<Rightarrow> Inl e
      | Inr a \<Rightarrow>
          app_add_middleware fw a CORSMiddleware
            [''allow_origins'' \<mapsto> given allow_origins (PySeq [PyStr ''*'']),
             ''allow_credentials'' \<mapsto> given allow_credentials (PyBool True),
             ''allow_methods'' \<mapsto> given allow_methods (PySeq [PyStr ''*'']),
             ''allow_headers'' \<mapsto> given allow_headers (PySeq [PyStr ''*''])] w)"

text \<open>\<^verbatim>\<open>add_gzip_middleware(self, minimum_size=500)\<close>.\<close>

definition add_gzip_middleware ::
  "'e framework \<Rightarrow> FastAPIApp \<Rightarrow> pyval option \<Rightarrow> world \<Rightarrow> 'e exn + world" where
  "add_gzip_middleware fw self minimum_size w =
     (case self_app self of
        Inl e \<Rightarrow> Inl e
      | Inr a \<Rightarrow>
          app_add_middleware fw a GZipMiddleware
            [''minimum_size'' \<mapsto> given minimum_size (PyInt 500)] w)"

text \<open>\<^verbatim>\<open>add_https_redirect_middleware(self)\<close>.\<close>

definition add_https_redirect_middleware ::
  "'e framework \<Rightarrow> FastAPIApp \<Rightarrow> world \<Rightarrow> 'e exn + world" where
  "add_https_redirect_middleware fw self w =
     (case self_app self of
        Inl e \<Rightarrow> Inl e
      | Inr a \<Rightarrow> app_add_middleware fw a HTTPSRedirectMiddleware Map.empty w)"

text \<open>\<^verbatim>\<open>add_trusted_host_middleware(self, allowed_hosts)\<close>: the parameter has no default.\<close>

definition add_trusted_host_middleware ::
  "'e framework \<Rightarrow> FastAPIApp \<Rightarrow> pyval \<Rightarrow> world \<Rightarrow> 'e exn + world" where
  "add_trusted_host_middleware fw self allowed_hosts w =
     (case self_app self of
        Inl e \<Rightarrow> Inl e
      | Inr a \<Rightarrow>
          app_add_middleware fw a TrustedHostMiddleware [''allowed_hosts'' \<mapsto> allowed_hosts] w)"

text \<open>\<^verbatim>\<open>get_app(self)\<close> returns \<^verbatim>\<open>self.app\<close>, the reference itself; it touches no object.\<close>

definition get_app :: "FastAPIApp \<Rightarrow> 'e exn + addr" where
  "get_app self = self_app self"

section \<open>Sequences of attachment calls\<close>

text \<open>One call of an attachment method, with its arguments.\<close>

datatype attachment =
    AddMiddleware middleware_class kwargs
  | AddCors "pyval option" "pyval option" "pyval option" "pyval option"
  | AddGzip "pyval option"
  | AddHttpsRedirect
  | AddTrustedHost pyval

fun attach :: "'e framework \<Rightarrow> FastAPIApp \<Rightarrow> attachment \<Rightarrow> world \<Rightarrow> 'e exn + world" where
  "attach fw self (AddMiddleware c kw) w = add_middleware fw self c kw w"
| "attach fw self (AddCors ao ac am ah) w = add_cors_middleware fw self ao ac am ah w"
| "attach fw self (AddGzip ms) w = add_gzip_middleware fw self ms w"
| "attach fw self AddHttpsRedirect w = add_https_redirect_middleware fw self w"
| "attach fw self (AddTrustedHost hs) w = add_trusted_host_middleware fw self hs w"

text \<open>
  The calls of a list, one after the other. An exception ends the sequence; what the
  calls before it installed stays installed, so the result is the exception, if any,
  and the world that was reached.
\<close>

fun attach_all ::
  "'e framework \<Rightarrow> FastAPIApp \<Rightarrow> attachment list \<Rightarrow> world \<Rightarrow> 'e exn option \<times> world" where
  "attach_all fw self [] w = (None, w)"
| "attach_all fw self (c # cs) w =
     (case attach fw self c w of
        Inl e \<Rightarrow> (Some e, w)
      | Inr w' \<Rightarrow> attach_all fw self cs w')"

section \<open>The behaviour the specification describes\<close>

text \<open>
  The middleware unit an attachment call is to install, read off the description of the
  operations: the kind, and the options as supplied, a defaulted option that is left
  out taking its default.
\<close>

definition attached_unit :: "attachment \<Rightarrow> Middleware" where
  "attached_unit c =
     (case c of
        AddMiddleware k kw \<Rightarrow> \<lparr>cls = k, options = kw\<rparr>
      | AddCors ao ac am ah \<Rightarrow>
          \<lparr>cls = CORSMiddleware,
           options =
             [''allow_origins'' \<mapsto> (case ao of None \<Rightarrow> PySeq [PyStr ''*''] | Some v \<Rightarrow> v),
              ''allow_credentials'' \<mapsto> (case ac of None \<Rightarrow> PyBool True | Some v \<Rightarrow> v),
              ''allow_methods'' \<mapsto> (case am of None \<Rightarrow> PySeq [PyStr ''*''] | Some v \<Rightarrow> v),
              ''allow_headers'' \<mapsto> (case ah of None \<Rightarrow> PySeq [PyStr ''*''] | Some v \<Rightarrow> v)]\<rparr>
      | AddGzip ms \<Rightarrow>
          \<lparr>cls = GZipMiddleware,
           options = [''minimum_size'' \<mapsto> (case ms of None \<Rightarrow> PyInt 500 | Some v \<Rightarrow> v)]\<rparr>
      | AddHttpsRedirect \<Rightarrow> \<lparr>cls = HTTPSRedirectMiddleware, options = Map.empty\<rparr>
      | AddTrustedHost hs \<Rightarrow>
          \<lparr>cls = TrustedHostMiddleware, options = [''allowed_hosts'' \<mapsto> hs]\<rparr>)"

text \<open>The world in which the chain of the object at \<open>a\<close> has gained the unit \<open>u\<close>.\<close>

definition install :: "addr \<Rightarrow> Middleware \<Rightarrow> world \<Rightarrow> world" where
  "install a u w =
     w\<lparr>heap := (heap w)(a := (heap w a)\<lparr>user_middleware := user_middleware (heap w a) @ [u]\<rparr>)\<rparr>"

text \<open>
  The calls of a sequence that get through, \<open>a\<close> being the application they are
  attached to: those before the first one whose unit the framework rejects.
\<close>

fun accepted :: "'e framework \<Rightarrow> addr \<Rightarrow> attachment list \<Rightarrow> world \<Rightarrow> attachment list" where
  "accepted fw a [] w = []"
| "accepted fw a (c # cs) w =
     (case add_middleware_raises fw (heap w a) (cls (attached_unit c))
             (options (attached_unit c)) of
        Some x \<Rightarrow> []
      | None \<Rightarrow> c # accepted fw a cs (install a (attached_unit c) w))"

text \<open>The metadata defaults of the constructor, as the signature lists them.\<close>

definition default_metadata :: "(string \<times> pyval) list" where
  "default_metadata =
     [(''title'', PyStr ''FastAPI''),
      (''description'', PyStr ''''),
      (''version'', PyStr ''0.1.0''),
      (''docs_url'', PyStr ''/docs''),
      (''redoc_url'', PyStr ''/redoc''),
      (''openapi_url'', PyStr ''/openapi.json''),
      (''openapi_prefix'', PyStr ''''),
      (''openapi_tags'', PyNone),
      (''terms_of_service'', PyNone),
      (''contact'', PyNone),
      (''license_info'', PyNone)]"

text \<open>
  The keyword arguments the framework's constructor is to receive: every field the
  caller passed, as passed, and the default of every named field the caller left out.
\<close>

definition forwarded :: "kwargs \<Rightarrow> kwargs" where
  "forwarded kw = map_of default_metadata ++ kw"

text \<open>The world in which a new application object, holding \<open>kw\<close>, has been made.\<close>

definition created :: "kwargs \<Rightarrow> world \<Rightarrow> world" where
  "created kw w =
     w\<lparr>heap := (heap w)(next_addr w := \<lparr>init_kwargs = kw, user_middleware = []\<rparr>),
       next_addr := Suc (next_addr w)\<rparr>"

section \<open>Concrete frameworks and worlds\<close>

text \<open>A framework that records what it is given and rejects nothing.\<close>

definition accepting :: "string framework" where
  "accepting = \<lparr>FastAPI_raises = (\<lambda>_. None), add_middleware_raises = (\<lambda>_ _ _. None)\<rparr>"

text \<open>A framework that rejects a trusted-host unit whose host list is empty.\<close>

definition strict_hosts :: "string framework" where
  "strict_hosts =
     \<lparr>FastAPI_raises = (\<lambda>_. None),
      add_middleware_raises =
        (\<lambda>_ c kw. if c = TrustedHostMiddleware \<and> kw ''allowed_hosts'' = Some (PySeq [])
                   then Some ''allowed_hosts is empty'' else None)\<rparr>"

definition fresh_app :: FastAPI where
  "fresh_app = \<lparr>init_kwargs = map_of default_metadata, user_middleware = []\<rparr>"

text \<open>The world before any application exists, and the world with one, at address 0.\<close>

definition world0 :: world where
  "world0 = \<lparr>heap = (\<lambda>_. fresh_app), next_addr = 0\<rparr>"

definition world1 :: world where
  "world1 = \<lparr>heap = (\<lambda>_. fresh_app), next_addr = Suc 0\<rparr>"

section \<open>Attachment calls on a constructed builder\<close>

lemma app_add_middleware_cases:
  "app_add_middleware fw a c kw w =
     (case add_middleware_raises fw (heap w a) c kw of
        Some e \<Rightarrow> Inl (Raised e)
      | None \<Rightarrow> Inr (install a \<lparr>cls = c, options = kw\<rparr> w))"
  by (simp add: app_add_middleware_def install_def split: option.split)

lemma unit_eta: "\<lparr>cls = cls u, options = options u\<rparr> = (u :: Middleware)"
  by (cases u) simp

lemma attach_constructed:
  "app self = Some a \<Longrightarrow>
     attach fw self c w =
       app_add_middleware fw a (cls (attached_unit c)) (options (attached_unit c)) w"
  by (cases c)
     (simp_all add: attached_unit_def self_app_def add_middleware_def add_cors_middleware_def
        add_gzip_middleware_def add_https_redirect_middleware_def
        add_trusted_host_middleware_def given_def)

lemma attach_unconstructed:
  "app self = None \<Longrightarrow> attach fw self c w = Inl (AttributeError ''app'')"
  by (cases c)
     (simp_all add: self_app_def add_middleware_def add_cors_middleware_def
        add_gzip_middleware_def add_https_redirect_middleware_def
        add_trusted_host_middleware_def)

lemma attach_Inr:
  assumes "app self = Some a" and "attach fw self c w = Inr w'"
  shows "w' = install a (attached_unit c) w"
  using assms
  by (simp add: attach_constructed app_add_middleware_cases unit_eta split: option.splits)

lemma install_chain [simp]:
  "user_middleware (heap (install a u w) a) = user_middleware (heap w a) @ [u]"
  by (simp add: install_def)

lemma install_other [simp]: "b \<noteq> a \<Longrightarrow> heap (install a u w) b = heap w b"
  by (simp add: install_def)

lemma install_init_kwargs [simp]:
  "init_kwargs (heap (install a u w) b) = init_kwargs (heap w b)"
  by (simp add: install_def)

lemma install_next_addr [simp]: "next_addr (install a u w) = next_addr w"
  by (simp add: install_def)

lemma attach_cases:
  "app self = Some a \<Longrightarrow>
     attach fw self c w =
       (case add_middleware_raises fw (heap w a) (cls (attached_unit c))
               (options (attached_unit c)) of
          Some x \<Rightarrow> Inl (Raised x)
        | None \<Rightarrow> Inr (install a (attached_unit c) w))"
  by (simp add: attach_constructed app_add_middleware_cases unit_eta split: option.split)

lemma attach_all_chain:
  "app self = Some a \<Longrightarrow>
     user_middleware (heap (snd (attach_all fw self cs w)) a) =
       user_middleware (heap w a) @ map attached_unit (accepted fw a cs w)"
proof (induction cs arbitrary: w)
  case Nil
  then show ?case by simp
next
  case (Cons c cs)
  show ?case
  proof (cases "add_middleware_raises fw (heap w a) (cls (attached_unit c))
                  (options (attached_unit c))")
    case None
    with Cons.prems have "attach fw self c w = Inr (install a (attached_unit c) w)"
      by (simp add: attach_cases)
    with None Cons.IH [OF Cons.prems, of "install a (attached_unit c) w"] show ?thesis
      by simp
  next
    case (Some x)
    with Cons.prems have "attach fw self c w = Inl (Raised x)" by (simp add: attach_cases)
    with Some show ?thesis by simp
  qed
qed

lemma attach_all_done:
  "app self = Some a \<Longrightarrow>
     (fst (attach_all fw self cs w) = None) = (accepted fw a cs w = cs)"
proof (induction cs arbitrary: w)
  case Nil
  then show ?case by simp
next
  case (Cons c cs)
  show ?case
  proof (cases "add_middleware_raises fw (heap w a) (cls (attached_unit c))
                  (options (attached_unit c))")
    case None
    with Cons.prems have "attach fw self c w = Inr (install a (attached_unit c) w)"
      by (simp add: attach_cases)
    with None Cons.IH [OF Cons.prems, of "install a (attached_unit c) w"] show ?thesis
      by simp
  next
    case (Some x)
    with Cons.prems have "attach fw self c w = Inl (Raised x)" by (simp add: attach_cases)
    with Some show ?thesis by simp
  qed
qed

lemma accepted_all:
  "\<forall>c\<in>set cs. \<forall>obj. add_middleware_raises fw obj (cls (attached_unit c))
       (options (attached_unit c)) = None \<Longrightarrow>
     accepted fw a cs w = cs"
  by (induction cs arbitrary: w) simp_all

section \<open>The constructor\<close>

lemma not_in_params: "k \<notin> set init_params \<Longrightarrow> map_of default_metadata k = None"
  by (simp add: init_params_def default_metadata_def)

lemma in_params:
  "k \<in> set init_params \<Longrightarrow>
     k = ''title'' \<or> k = ''description'' \<or> k = ''version'' \<or> k = ''docs_url''
     \<or> k = ''redoc_url'' \<or> k = ''openapi_url'' \<or> k = ''openapi_prefix''
     \<or> k = ''openapi_tags'' \<or> k = ''terms_of_service'' \<or> k = ''contact''
     \<or> k = ''license_info''"
  by (simp add: init_params_def)

lemma init_call_kwargs_at:
  "((\<lambda>k. if k \<in> set init_params then None else kw k)
          (''title'' \<mapsto> arg kw ''title'' (PyStr ''FastAPI''),
           ''description'' \<mapsto> arg kw ''description'' (PyStr ''''),
           ''version'' \<mapsto> arg kw ''version'' (PyStr ''0.1.0''),
           ''docs_url'' \<mapsto> arg kw ''docs_url'' (PyStr ''/docs''),
           ''redoc_url'' \<mapsto> arg kw ''redoc_url'' (PyStr ''/redoc''),
           ''openapi_url'' \<mapsto> arg kw ''openapi_url'' (PyStr ''/openapi.json''),
           ''openapi_prefix'' \<mapsto> arg kw ''openapi_prefix'' (PyStr ''''),
           ''openapi_tags'' \<mapsto> arg kw ''openapi_tags'' PyNone,
           ''terms_of_service'' \<mapsto> arg kw ''terms_of_service'' PyNone,
           ''contact'' \<mapsto> arg kw ''contact'' PyNone,
           ''license_info'' \<mapsto> arg kw ''license_info'' PyNone)) k = forwarded kw k"
proof (cases "k \<in> set init_params")
  case False
  then have "map_of default_metadata k = None" by (rule not_in_params)
  then have r: "forwarded kw k = kw k"
    by (simp add: forwarded_def map_add_def split: option.split)
  from False have "k \<noteq> ''title''" "k \<noteq> ''description''" "k \<noteq> ''version''"
    "k \<noteq> ''docs_url''" "k \<noteq> ''redoc_url''" "k \<noteq> ''openapi_url''"
    "k \<noteq> ''openapi_prefix''" "k \<noteq> ''openapi_tags''" "k \<noteq> ''terms_of_service''"
    "k \<noteq> ''contact''" "k \<noteq> ''license_info''"
    by (simp_all add: init_params_def)
  with False r show ?thesis by simp
next
  case True
  from in_params [OF this] show ?thesis
    by (elim disjE;
        simp add: forwarded_def arg_def map_add_def default_metadata_def split: option.split)
qed

lemma FastAPIApp_init_cases:
  "FastAPIApp_init fw self kw w =
     (case FastAPI_raises fw (forwarded kw) of
        Some x \<Rightarrow> Inl (Raised x)
      | None \<Rightarrow> Inr (self\<lparr>app := Some (next_addr w)\<rparr>, created (forwarded kw) w))"
proof -
  have "(\<lambda>k. if k \<in> set init_params then None else kw k)
          (''title'' \<mapsto> arg kw ''title'' (PyStr ''FastAPI''),
           ''description'' \<mapsto> arg kw ''description'' (PyStr ''''),
           ''version'' \<mapsto> arg kw ''version'' (PyStr ''0.1.0''),
           ''docs_url'' \<mapsto> arg kw ''docs_url'' (PyStr ''/docs''),
           ''redoc_url'' \<mapsto> arg kw ''redoc_url'' (PyStr ''/redoc''),
           ''openapi_url'' \<mapsto> arg kw ''openapi_url'' (PyStr ''/openapi.json''),
           ''openapi_prefix'' \<mapsto> arg kw ''openapi_prefix'' (PyStr ''''),
           ''openapi_tags'' \<mapsto> arg kw ''openapi_tags'' PyNone,
           ''terms_of_service'' \<mapsto> arg kw ''terms_of_service'' PyNone,
           ''contact'' \<mapsto> arg kw ''contact'' PyNone,
           ''license_info'' \<mapsto> arg kw ''license_info'' PyNone) = forwarded kw"
    by (rule ext) (rule init_call_kwargs_at)
  then have "FastAPIApp_init fw self kw w =
     (case FastAPI_new fw (forwarded kw) w of
        Inl e \<Rightarrow> Inl e
      | Inr (a, w') \<Rightarrow> Inr (self\<lparr>app := Some a\<rparr>, w'))"
    unfolding FastAPIApp_init_def Let_def by (rule arg_cong)
  then show ?thesis
    by (simp add: FastAPI_new_def created_def split: option.split)
qed

lemma forwarded_given: "kw k = Some v \<Longrightarrow> forwarded kw k = Some v"
  by (simp add: forwarded_def)

lemma forwarded_default: "kw k = None \<Longrightarrow> forwarded kw k = map_of default_metadata k"
  by (simp add: forwarded_def map_add_def)

lemma forwarded_extra: "k \<notin> set init_params \<Longrightarrow> forwarded kw k = kw k"
  by (cases "kw k") (simp_all add: forwarded_given forwarded_default not_in_params)

lemma dom_forwarded: "dom (forwarded kw) = set init_params \<union> dom kw"
  by (auto simp: forwarded_def init_params_def default_metadata_def)

lemma forwarded_empty: "forwarded Map.empty = map_of default_metadata"
  by (simp add: forwarded_def)

lemma created_new [simp]:
  "heap (created kw w) (next_addr w) = \<lparr>init_kwargs = kw, user_middleware = []\<rparr>"
  by (simp add: created_def)

lemma created_other [simp]: "b \<noteq> next_addr w \<Longrightarrow> heap (created kw w) b = heap w b"
  by (simp add: created_def)

lemma FastAPIApp_init_Inr:
  assumes "FastAPIApp_init fw self0 kw w = Inr (self, w')"
  shows "self = self0\<lparr>app := Some (next_addr w)\<rparr>" and "w' = created (forwarded kw) w"
  using assms by (simp_all add: FastAPIApp_init_cases split: option.splits)

lemma get_app_constructed: "app self = Some a \<Longrightarrow> get_app self = Inr a"
  by (simp add: get_app_def self_app_def)

lemma get_app_unconstructed: "app self = None \<Longrightarrow> get_app self = Inl (AttributeError ''app'')"
  by (simp add: get_app_def self_app_def)

section \<open>The claims\<close>

text \<open>
  C1. For every configuration the framework accepts, the constructor succeeds, and
  \<^verbatim>\<open>get_app\<close> on the builder returns the application the framework built: every
  field the caller passed is held by it under the same name with the same value, and
  the fields it holds are the named ones and those passed, no other.
\<close>

theorem init_forwards_fields:
  assumes "FastAPI_raises (fw :: 'e framework) (forwarded kw) = None"
  shows "FastAPIApp_init fw self0 kw w =
           Inr (self0\<lparr>app := Some (next_addr w)\<rparr>, created (forwarded kw) w)
         \<and> (get_app (self0\<lparr>app := Some (next_addr w)\<rparr>) :: 'e exn + addr) = Inr (next_addr w)
         \<and> (\<forall>k\<in>dom kw. init_kwargs (heap (created (forwarded kw) w) (next_addr w)) k = kw k)
         \<and> dom (init_kwargs (heap (created (forwarded kw) w) (next_addr w))) =
             set init_params \<union> dom kw"
proof -
  from assms have "FastAPIApp_init fw self0 kw w =
           Inr (self0\<lparr>app := Some (next_addr w)\<rparr>, created (forwarded kw) w)"
    by (simp add: FastAPIApp_init_cases)
  moreover have "(get_app (self0\<lparr>app := Some (next_addr w)\<rparr>) :: 'e exn + addr) = Inr (next_addr w)"
    by (simp add: get_app_constructed)
  moreover have "\<forall>k\<in>dom kw. init_kwargs (heap (created (forwarded kw) w) (next_addr w)) k = kw k"
    by (auto simp: forwarded_given)
  moreover have "dom (init_kwargs (heap (created (forwarded kw) w) (next_addr w))) =
             set init_params \<union> dom kw"
    by (simp add: dom_forwarded)
  ultimately show ?thesis by blast
qed

theorem init_forwards_fields_witness:
  "FastAPI_raises accepting
       (forwarded [''title'' \<mapsto> PyStr ''Shop'', ''docs_url'' \<mapsto> PyNone, ''debug'' \<mapsto> PyBool True]) = None
   \<and> FastAPIApp_init accepting \<lparr>app = None\<rparr>
       [''title'' \<mapsto> PyStr ''Shop'', ''docs_url'' \<mapsto> PyNone, ''debug'' \<mapsto> PyBool True] world0 =
     Inr (\<lparr>app = Some 0\<rparr>,
          created (forwarded [''title'' \<mapsto> PyStr ''Shop'', ''docs_url'' \<mapsto> PyNone,
                              ''debug'' \<mapsto> PyBool True]) world0)
   \<and> get_app \<lparr>app = Some 0\<rparr> = (Inr 0 :: string exn + addr)
   \<and> init_kwargs (heap (created (forwarded [''title'' \<mapsto> PyStr ''Shop'', ''docs_url'' \<mapsto> PyNone,
                              ''debug'' \<mapsto> PyBool True]) world0) 0) ''title'' = Some (PyStr ''Shop'')
   \<and> init_kwargs (heap (created (forwarded [''title'' \<mapsto> PyStr ''Shop'', ''docs_url'' \<mapsto> PyNone,
                              ''debug'' \<mapsto> PyBool True]) world0) 0) ''docs_url'' = Some PyNone
   \<and> init_kwargs (heap (created (forwarded [''title'' \<mapsto> PyStr ''Shop'', ''docs_url'' \<mapsto> PyNone,
                              ''debug'' \<mapsto> PyBool True]) world0) 0) ''debug'' = Some (PyBool True)"
proof -
  define kw :: kwargs where
    "kw = [''title'' \<mapsto> PyStr ''Shop'', ''docs_url'' \<mapsto> PyNone, ''debug'' \<mapsto> PyBool True]"
  have n: "next_addr world0 = 0" by (simp add: world0_def)
  have h: "FastAPI_raises accepting (forwarded kw) = None" by (simp add: accepting_def)
  note t = init_forwards_fields [OF h, of "\<lparr>app = None\<rparr>" world0, unfolded n]
  from t have i: "FastAPIApp_init accepting \<lparr>app = None\<rparr> kw world0 =
             Inr (\<lparr>app = Some 0\<rparr>, created (forwarded kw) world0)"
    by simp
  from t have a: "get_app \<lparr>app = Some 0\<rparr> = (Inr 0 :: string exn + addr)" by simp
  from t have b: "\<forall>k\<in>dom kw. init_kwargs (heap (created (forwarded kw) world0) 0) k = kw k"
    by simp
  have "''title'' \<in> dom kw" "''docs_url'' \<in> dom kw" "''debug'' \<in> dom kw"
    by (simp_all add: kw_def)
  with b have "init_kwargs (heap (created (forwarded kw) world0) 0) ''title'' = kw ''title''"
    "init_kwargs (heap (created (forwarded kw) world0) 0) ''docs_url'' = kw ''docs_url''"
    "init_kwargs (heap (created (forwarded kw) world0) 0) ''debug'' = kw ''debug''"
    by blast+
  then have c: "init_kwargs (heap (created (forwarded kw) world0) 0) ''title'' = Some (PyStr ''Shop'')"
    "init_kwargs (heap (created (forwarded kw) world0) 0) ''docs_url'' = Some PyNone"
    "init_kwargs (heap (created (forwarded kw) world0) 0) ''debug'' = Some (PyBool True)"
    by (simp_all add: kw_def)
  from h i a c show ?thesis unfolding kw_def by blast
qed

text \<open>
  C2. On a constructed builder, each attachment call the framework accepts installs
  exactly one unit, its own, at the end of the middleware chain of the application. For
  every sequence of calls the chain afterwards is the chain before followed by the units
  of the calls that got through, in the order of the calls; the sequence ends without
  an exception exactly when all got through, and all get through when the framework
  rejects none of the units.
\<close>

theorem attachment_order_preserved:
  assumes "app self = Some a"
  shows "user_middleware (heap (snd (attach_all fw self cs w)) a) =
           user_middleware (heap w a) @ map attached_unit (accepted fw a cs w)
         \<and> (fst (attach_all fw self cs w) = None \<longleftrightarrow> accepted fw a cs w = cs)
         \<and> ((\<forall>c\<in>set cs. \<forall>obj. add_middleware_raises fw obj (cls (attached_unit c))
                 (options (attached_unit c)) = None) \<longrightarrow>
              fst (attach_all fw self cs w) = None
              \<and> user_middleware (heap (snd (attach_all fw self cs w)) a) =
                  user_middleware (heap w a) @ map attached_unit cs)"
proof -
  note chain = attach_all_chain [OF assms, of fw cs w]
  note fin = attach_all_done [OF assms, of fw cs w]
  have "fst (attach_all fw self cs w) = None
        \<and> user_middleware (heap (snd (attach_all fw self cs w)) a) =
            user_middleware (heap w a) @ map attached_unit cs"
    if "\<forall>c\<in>set cs. \<forall>obj. add_middleware_raises fw obj (cls (attached_unit c))
          (options (attached_unit c)) = None"
  proof -
    from that have "accepted fw a cs w = cs" by (rule accepted_all)
    with chain fin show ?thesis by simp
  qed
  with chain fin show ?thesis by blast
qed

theorem attachment_order_witness:
  "app \<lparr>app = Some 0\<rparr> = Some 0
   \<and> fst (attach_all accepting \<lparr>app = Some 0\<rparr>
             [AddGzip None, AddCors None None None None] world1) = None
   \<and> map cls (user_middleware
        (heap (snd (attach_all accepting \<lparr>app = Some 0\<rparr>
                      [AddGzip None, AddCors None None None None] world1)) 0)) =
       [GZipMiddleware, CORSMiddleware]
   \<and> map cls (user_middleware
        (heap (snd (attach_all strict_hosts \<lparr>app = Some 0\<rparr>
                      [AddGzip None, AddTrustedHost (PySeq []), AddHttpsRedirect] world1)) 0)) =
       [GZipMiddleware]"
proof -
  have h: "app \<lparr>app = Some 0\<rparr> = Some 0" by simp
  have e: "user_middleware (heap world1 0) = []" by (simp add: world1_def fresh_app_def)
  have acc: "accepted accepting 0 [AddGzip None, AddCors None None None None] world1 =
               [AddGzip None, AddCors None None None None]"
    by (simp add: accepting_def)
  have rej: "accepted strict_hosts 0
               [AddGzip None, AddTrustedHost (PySeq []), AddHttpsRedirect] world1 =
               [AddGzip None]"
    by (simp add: strict_hosts_def attached_unit_def)
  note t = attachment_order_preserved
             [OF h, of accepting "[AddGzip None, AddCors None None None None]" world1]
  from t acc have a: "fst (attach_all accepting \<lparr>app = Some 0\<rparr>
             [AddGzip None, AddCors None None None None] world1) = None"
    by simp
  from t acc e have b: "map cls (user_middleware
        (heap (snd (attach_all accepting \<lparr>app = Some 0\<rparr>
                      [AddGzip None, AddCors None None None None] world1)) 0)) =
       [GZipMiddleware, CORSMiddleware]"
    by (simp add: attached_unit_def)
  note u = attachment_order_preserved
             [OF h, of strict_hosts "[AddGzip None, AddTrustedHost (PySeq []), AddHttpsRedirect]"
                world1]
  from u rej e have c: "map cls (user_middleware
        (heap (snd (attach_all strict_hosts \<lparr>app = Some 0\<rparr>
                      [AddGzip None, AddTrustedHost (PySeq []), AddHttpsRedirect] world1)) 0)) =
       [GZipMiddleware]"
    by (simp add: attached_unit_def)
  from h a b c show ?thesis by blast
qed

text \<open>
  C5. The CORS convenience method on a constructed builder hands the framework one unit,
  of the CORS kind, whose four options are the values supplied, unchanged, an option
  left out being \<^verbatim>\<open>("*",)\<close> for origins, methods and headers and \<^verbatim>\<open>True\<close> for
  credentials. Unless the framework rejects that unit, the call returns and the chain
  of the application has gained exactly that one unit.
\<close>

theorem cors_options_preserved:
  assumes "app self = Some a"
  shows "add_cors_middleware fw self allow_origins allow_credentials allow_methods
           allow_headers w =
           (case add_middleware_raises fw (heap w a) CORSMiddleware
                   [''allow_origins'' \<mapsto>
                      (case allow_origins of None \<Rightarrow> PySeq [PyStr ''*''] | Some v \<Rightarrow> v),
                    ''allow_credentials'' \<mapsto>
                      (case allow_credentials of None \<Rightarrow> PyBool True | Some v \<Rightarrow> v),
                    ''allow_methods'' \<mapsto>
                      (case allow_methods of None \<Rightarrow> PySeq [PyStr ''*''] | Some v \<Rightarrow> v),
                    ''allow_headers'' \<mapsto>
                      (case allow_headers of None \<Rightarrow> PySeq [PyStr ''*''] | Some v \<Rightarrow> v)] of
              Some x \<Rightarrow> Inl (Raised x)
            | None \<Rightarrow>
                Inr (install a
                  \<lparr>cls = CORSMiddleware,
                   options =
                     [''allow_origins'' \<mapsto>
                        (case allow_origins of None \<Rightarrow> PySeq [PyStr ''*''] | Some v \<Rightarrow> v),
                      ''allow_credentials'' \<mapsto>
                        (case allow_credentials of None \<Rightarrow> PyBool True | Some v \<Rightarrow> v),
                      ''allow_methods'' \<mapsto>
                        (case allow_methods of None \<Rightarrow> PySeq [PyStr ''*''] | Some v \<Rightarrow> v),
                      ''allow_headers'' \<mapsto>
                        (case allow_headers of None \<Rightarrow> PySeq [PyStr ''*''] | Some v \<Rightarrow> v)]\<rparr> w))
         \<and> (\<forall>u. user_middleware (heap (install a u w) a) = user_middleware (heap w a) @ [u])"
  using assms
  by (simp add: add_cors_middleware_def self_app_def app_add_middleware_cases given_def)

theorem cors_options_witness:
  "app \<lparr>app = Some 0\<rparr> = Some 0
   \<and> add_cors_middleware accepting \<lparr>app = Some 0\<rparr>
        (Some (PySeq [PyStr ''https://example.com''])) (Some (PyBool False)) None None world1 =
       Inr (install 0
              \<lparr>cls = CORSMiddleware,
               options = [''allow_origins'' \<mapsto> PySeq [PyStr ''https://example.com''],
                          ''allow_credentials'' \<mapsto> PyBool False,
                          ''allow_methods'' \<mapsto> PySeq [PyStr ''*''],
                          ''allow_headers'' \<mapsto> PySeq [PyStr ''*'']]\<rparr> world1)
   \<and> add_cors_middleware accepting \<lparr>app = Some 0\<rparr> None None None None world1 =
       Inr (install 0
              \<lparr>cls = CORSMiddleware,
               options = [''allow_origins'' \<mapsto> PySeq [PyStr ''*''],
                          ''allow_credentials'' \<mapsto> PyBool True,
                          ''allow_methods'' \<mapsto> PySeq [PyStr ''*''],
                          ''allow_headers'' \<mapsto> PySeq [PyStr ''*'']]\<rparr> world1)
   \<and> user_middleware
        (heap (install 0
              \<lparr>cls = CORSMiddleware,
               options = [''allow_origins'' \<mapsto> PySeq [PyStr ''https://example.com''],
                          ''allow_credentials'' \<mapsto> PyBool False,
                          ''allow_methods'' \<mapsto> PySeq [PyStr ''*''],
                          ''allow_headers'' \<mapsto> PySeq [PyStr ''*'']]\<rparr> world1) 0) =
       [\<lparr>cls = CORSMiddleware,
         options = [''allow_origins'' \<mapsto> PySeq [PyStr ''https://example.com''],
                    ''allow_credentials'' \<mapsto> PyBool False,
                    ''allow_methods'' \<mapsto> PySeq [PyStr ''*''],
                    ''allow_headers'' \<mapsto> PySeq [PyStr ''*'']]\<rparr>]"
proof -
  have h: "app \<lparr>app = Some 0\<rparr> = Some 0" by simp
  have e: "user_middleware (heap world1 0) = []" by (simp add: world1_def fresh_app_def)
  note t = cors_options_preserved
             [OF h, of accepting "Some (PySeq [PyStr ''https://example.com''])"
                "Some (PyBool False)" None None world1]
  note d = cors_options_preserved [OF h, of accepting None None None None world1]
  from t have a: "add_cors_middleware accepting \<lparr>app = Some 0\<rparr>
        (Some (PySeq [PyStr ''https://example.com''])) (Some (PyBool False)) None None world1 =
       Inr (install 0
              \<lparr>cls = CORSMiddleware,
               options = [''allow_origins'' \<mapsto> PySeq [PyStr ''https://example.com''],
                          ''allow_credentials'' \<mapsto> PyBool False,
                          ''allow_methods'' \<mapsto> PySeq [PyStr ''*''],
                          ''allow_headers'' \<mapsto> PySeq [PyStr ''*'']]\<rparr> world1)"
    by (simp add: accepting_def)
  from d have b: "add_cors_middleware accepting \<lparr>app = Some 0\<rparr> None None None None world1 =
       Inr (install 0
              \<lparr>cls = CORSMiddleware,
               options = [''allow_origins'' \<mapsto> PySeq [PyStr ''*''],
                          ''allow_credentials'' \<mapsto> PyBool True,
                          ''allow_methods'' \<mapsto> PySeq [PyStr ''*''],
                          ''allow_headers'' \<mapsto> PySeq [PyStr ''*'']]\<rparr> world1)"
    by (simp add: accepting_def)
  from t e have c: "user_middleware
        (heap (install 0
              \<lparr>cls = CORSMiddleware,
               options = [''allow_origins'' \<mapsto> PySeq [PyStr ''https://example.com''],
                          ''allow_credentials'' \<mapsto> PyBool False,
                          ''allow_methods'' \<mapsto> PySeq [PyStr ''*''],
                          ''allow_headers'' \<mapsto> PySeq [PyStr ''*'']]\<rparr> world1) 0) =
       [\<lparr>cls = CORSMiddleware,
         options = [''allow_origins'' \<mapsto> PySeq [PyStr ''https://example.com''],
                    ''allow_credentials'' \<mapsto> PyBool False,
                    ''allow_methods'' \<mapsto> PySeq [PyStr ''*''],
                    ''allow_headers'' \<mapsto> PySeq [PyStr ''*'']]\<rparr>]"
    by simp
  from h a b c show ?thesis by blast
qed

text \<open>
  C6. The GZip convenience method on a constructed builder hands the framework one GZip
  unit whose only option, \<^verbatim>\<open>minimum_size\<close>, is the value supplied, unchanged, and 500
  when none is supplied. Unless the framework rejects that unit, the call returns and
  the chain of the application has gained exactly that one unit.
\<close>

theorem gzip_threshold_as_supplied:
  assumes "app self = Some a"
  shows "add_gzip_middleware fw self minimum_size w =
           (case add_middleware_raises fw (heap w a) GZipMiddleware
                   [''minimum_size'' \<mapsto>
                      (case minimum_size of None \<Rightarrow> PyInt 500 | Some v \<Rightarrow> v)] of
              Some x \<Rightarrow> Inl (Raised x)
            | None \<Rightarrow>
                Inr (install a
                  \<lparr>cls = GZipMiddleware,
                   options = [''minimum_size'' \<mapsto>
                      (case minimum_size of None \<Rightarrow> PyInt 500 | Some v \<Rightarrow> v)]\<rparr> w))
         \<and> (\<forall>u. user_middleware (heap (install a u w) a) = user_middleware (heap w a) @ [u])"
  using assms
  by (simp add: add_gzip_middleware_def self_app_def app_add_middleware_cases given_def)

theorem gzip_threshold_witness:
  "app \<lparr>app = Some 0\<rparr> = Some 0
   \<and> add_gzip_middleware accepting \<lparr>app = Some 0\<rparr> (Some (PyInt 1000)) world1 =
       Inr (install 0 \<lparr>cls = GZipMiddleware, options = [''minimum_size'' \<mapsto> PyInt 1000]\<rparr> world1)
   \<and> add_gzip_middleware accepting \<lparr>app = Some 0\<rparr> None world1 =
       Inr (install 0 \<lparr>cls = GZipMiddleware, options = [''minimum_size'' \<mapsto> PyInt 500]\<rparr> world1)
   \<and> user_middleware
        (heap (install 0 \<lparr>cls = GZipMiddleware, options = [''minimum_size'' \<mapsto> PyInt 1000]\<rparr> world1) 0) =
       [\<lparr>cls = GZipMiddleware, options = [''minimum_size'' \<mapsto> PyInt 1000]\<rparr>]"
proof -
  have h: "app \<lparr>app = Some 0\<rparr> = Some 0" by simp
  have e: "user_middleware (heap world1 0) = []" by (simp add: world1_def fresh_app_def)
  note t = gzip_threshold_as_supplied [OF h, of accepting "Some (PyInt 1000)" world1]
  note d = gzip_threshold_as_supplied [OF h, of accepting None world1]
  from t have a: "add_gzip_middleware accepting \<lparr>app = Some 0\<rparr> (Some (PyInt 1000)) world1 =
       Inr (install 0 \<lparr>cls = GZipMiddleware, options = [''minimum_size'' \<mapsto> PyInt 1000]\<rparr> world1)"
    by (simp add: accepting_def)
  from d have b: "add_gzip_middleware accepting \<lparr>app = Some 0\<rparr> None world1 =
       Inr (install 0 \<lparr>cls = GZipMiddleware, options = [''minimum_size'' \<mapsto> PyInt 500]\<rparr> world1)"
    by (simp add: accepting_def)
  from t e have c: "user_middleware
        (heap (install 0 \<lparr>cls = GZipMiddleware, options = [''minimum_size'' \<mapsto> PyInt 1000]\<rparr> world1) 0) =
       [\<lparr>cls = GZipMiddleware, options = [''minimum_size'' \<mapsto> PyInt 1000]\<rparr>]"
    by simp
  from h a b c show ?thesis by blast
qed

text \<open>
  C3. On a builder whose constructor has not run, every attachment method and
  \<^verbatim>\<open>get_app\<close> raise (the \<^verbatim>\<open>AttributeError\<close> for the missing attribute
  \<^verbatim>\<open>app\<close>); none returns. No method raises an exception of its own in any
  other case: an attachment fails otherwise only with the exception the framework raised
  for the unit, the constructor only with the framework's, and \<^verbatim>\<open>get_app\<close> on a
  constructed builder returns.
\<close>

theorem unconstructed_fails:
  "(app self = None \<longrightarrow>
      attach (fw :: 'e framework) self c w = Inl (AttributeError ''app'')
      \<and> (get_app self :: 'e exn + addr) = Inl (AttributeError ''app''))
   \<and> (\<forall>e. attach fw self c w = Inl e \<longrightarrow>
          (e = AttributeError ''app'' \<and> app self = None)
          \<or> (\<exists>x a. e = Raised x \<and> app self = Some a
                \<and> add_middleware_raises fw (heap w a) (cls (attached_unit c))
                      (options (attached_unit c)) = Some x))
   \<and> (\<forall>e. FastAPIApp_init fw self kw w = Inl e \<longrightarrow> (\<exists>x. e = Raised x))
   \<and> (\<forall>a. app self = Some a \<longrightarrow> (get_app self :: 'e exn + addr) = Inr a)"
proof (intro conjI allI impI)
  assume "app self = None"
  then show "attach fw self c w = Inl (AttributeError ''app'')"
    by (rule attach_unconstructed)
next
  assume "app self = None"
  then show "(get_app self :: 'e exn + addr) = Inl (AttributeError ''app'')"
    by (rule get_app_unconstructed)
next
  fix e assume f: "attach fw self c w = Inl e"
  show "(e = AttributeError ''app'' \<and> app self = None)
          \<or> (\<exists>x a. e = Raised x \<and> app self = Some a
                \<and> add_middleware_raises fw (heap w a) (cls (attached_unit c))
                      (options (attached_unit c)) = Some x)"
  proof (cases "app self")
    case None
    with f show ?thesis by (simp add: attach_unconstructed)
  next
    case (Some a)
    with f show ?thesis
      by (auto simp: attach_constructed app_add_middleware_cases split: option.splits)
  qed
next
  fix e assume "FastAPIApp_init fw self kw w = Inl e"
  then show "\<exists>x. e = Raised x"
    by (auto simp: FastAPIApp_init_cases split: option.splits)
next
  fix a assume "app self = Some a"
  then show "(get_app self :: 'e exn + addr) = Inr a" by (rule get_app_constructed)
qed

theorem unconstructed_fails_witness:
  "app \<lparr>app = None\<rparr> = None
   \<and> attach accepting \<lparr>app = None\<rparr> (AddCors None None None None) world0 =
       Inl (AttributeError ''app'')
   \<and> get_app \<lparr>app = None\<rparr> = (Inl (AttributeError ''app'') :: string exn + addr)"
proof -
  have h: "app \<lparr>app = None\<rparr> = None" by simp
  from unconstructed_fails [of "\<lparr>app = None\<rparr>" accepting "AddCors None None None None" world0 Map.empty]
  have "app \<lparr>app = None\<rparr> = None \<longrightarrow>
      attach accepting \<lparr>app = None\<rparr> (AddCors None None None None) world0 =
        Inl (AttributeError ''app'')
      \<and> get_app \<lparr>app = None\<rparr> = (Inl (AttributeError ''app'') :: string exn + addr)"
    by (rule conjunct1)
  with h show ?thesis by blast
qed

text \<open>
  C4, as amended. \<^verbatim>\<open>add_trusted_host_middleware\<close> on a constructed builder hands
  \<^verbatim>\<open>allowed_hosts\<close>, empty or not, unchanged to the framework as the only option of
  one trusted-host unit; the call is rejected exactly when the framework rejects that
  unit, and then with the framework's exception.
\<close>

theorem trusted_host_forwarded:
  assumes "app self = Some a"
  shows "add_trusted_host_middleware fw self allowed_hosts w =
           (case add_middleware_raises fw (heap w a) TrustedHostMiddleware
                   [''allowed_hosts'' \<mapsto> allowed_hosts] of
              Some x \<Rightarrow> Inl (Raised x)
            | None \<Rightarrow>
                Inr (install a \<lparr>cls = TrustedHostMiddleware,
                                options = [''allowed_hosts'' \<mapsto> allowed_hosts]\<rparr> w))"
  using assms
  by (simp add: add_trusted_host_middleware_def self_app_def app_add_middleware_cases)

theorem trusted_host_forwarded_witness:
  "app \<lparr>app = Some 0\<rparr> = Some 0
   \<and> add_trusted_host_middleware strict_hosts \<lparr>app = Some 0\<rparr> (PySeq []) world1 =
       Inl (Raised ''allowed_hosts is empty'')
   \<and> add_trusted_host_middleware strict_hosts \<lparr>app = Some 0\<rparr> (PySeq [PyStr ''example.com'']) world1 =
       Inr (install 0 \<lparr>cls = TrustedHostMiddleware,
                       options = [''allowed_hosts'' \<mapsto> PySeq [PyStr ''example.com'']]\<rparr> world1)"
proof -
  have h: "app \<lparr>app = Some 0\<rparr> = Some 0" by simp
  from trusted_host_forwarded [OF h, of strict_hosts "PySeq []" world1]
  have a: "add_trusted_host_middleware strict_hosts \<lparr>app = Some 0\<rparr> (PySeq []) world1 =
       Inl (Raised ''allowed_hosts is empty'')"
    by (simp add: strict_hosts_def)
  from trusted_host_forwarded [OF h, of strict_hosts "PySeq [PyStr ''example.com'']" world1]
  have b: "add_trusted_host_middleware strict_hosts \<lparr>app = Some 0\<rparr> (PySeq [PyStr ''example.com'']) world1 =
       Inr (install 0 \<lparr>cls = TrustedHostMiddleware,
                       options = [''allowed_hosts'' \<mapsto> PySeq [PyStr ''example.com'']]\<rparr> world1)"
    by (simp add: strict_hosts_def)
  from h a b show ?thesis by blast
qed

text \<open>
  C4, as stated, fails: the method has no check of its own, so with a framework that
  records a unit without looking at its options, \<^verbatim>\<open>FastAPIApp()\<close> followed by
  \<^verbatim>\<open>add_trusted_host_middleware([])\<close> returns, and the empty list is installed.
\<close>

theorem trusted_host_empty_counterexample:
  "FastAPIApp_init accepting \<lparr>app = None\<rparr> Map.empty world0 =
     Inr (\<lparr>app = Some 0\<rparr>, created (map_of default_metadata) world0)
   \<and> add_trusted_host_middleware accepting \<lparr>app = Some 0\<rparr> (PySeq [])
        (created (map_of default_metadata) world0) =
       Inr (install 0 \<lparr>cls = TrustedHostMiddleware, options = [''allowed_hosts'' \<mapsto> PySeq []]\<rparr>
              (created (map_of default_metadata) world0))
   \<and> user_middleware
        (heap (install 0 \<lparr>cls = TrustedHostMiddleware, options = [''allowed_hosts'' \<mapsto> PySeq []]\<rparr>
                 (created (map_of default_metadata) world0)) 0) =
       [\<lparr>cls = TrustedHostMiddleware, options = [''allowed_hosts'' \<mapsto> PySeq []]\<rparr>]"
proof -
  have n: "next_addr world0 = 0" by (simp add: world0_def)
  have a: "FastAPIApp_init accepting \<lparr>app = None\<rparr> Map.empty world0 =
     Inr (\<lparr>app = Some 0\<rparr>, created (map_of default_metadata) world0)"
    by (simp add: FastAPIApp_init_cases accepting_def n forwarded_empty)
  have b: "add_trusted_host_middleware accepting \<lparr>app = Some 0\<rparr> (PySeq [])
        (created (map_of default_metadata) world0) =
       Inr (install 0 \<lparr>cls = TrustedHostMiddleware, options = [''allowed_hosts'' \<mapsto> PySeq []]\<rparr>
              (created (map_of default_metadata) world0))"
    by (simp add: add_trusted_host_middleware_def self_app_def app_add_middleware_cases
          accepting_def)
  have "heap (created (map_of default_metadata) world0) 0 =
          \<lparr>init_kwargs = map_of default_metadata, user_middleware = []\<rparr>"
    using created_new [of "map_of default_metadata" world0] by (simp add: n)
  then have c: "user_middleware
        (heap (install 0 \<lparr>cls = TrustedHostMiddleware, options = [''allowed_hosts'' \<mapsto> PySeq []]\<rparr>
                 (created (map_of default_metadata) world0)) 0) =
       [\<lparr>cls = TrustedHostMiddleware, options = [''allowed_hosts'' \<mapsto> PySeq []]\<rparr>]"
    by simp
  from a b c show ?thesis by blast
qed

text \<open>
  C7. After a successful construction, \<^verbatim>\<open>get_app\<close> returns the reference to the
  object the constructor made (no other object of the store was touched by the
  construction), and every attachment call on the builder changes the object at that
  same reference and no other, without making any new object.
\<close>

theorem get_app_same_instance:
  assumes "FastAPIApp_init (fw :: 'e framework) self0 kw w = Inr (self, w')"
  shows "(get_app self :: 'e exn + addr) = Inr (next_addr w)
         \<and> heap w' (next_addr w) = \<lparr>init_kwargs = forwarded kw, user_middleware = []\<rparr>
         \<and> (\<forall>b. b \<noteq> next_addr w \<longrightarrow> heap w' b = heap w b)
         \<and> (\<forall>c v v'. attach fw self c v = Inr v' \<longrightarrow>
               user_middleware (heap v' (next_addr w)) =
                 user_middleware (heap v (next_addr w)) @ [attached_unit c]
               \<and> (\<forall>b. b \<noteq> next_addr w \<longrightarrow> heap v' b = heap v b)
               \<and> next_addr v' = next_addr v)"
proof -
  note r = FastAPIApp_init_Inr [OF assms]
  from r(1) have s: "app self = Some (next_addr w)" by simp
  then have "(get_app self :: 'e exn + addr) = Inr (next_addr w)" by (rule get_app_constructed)
  moreover from r(2)
  have "heap w' (next_addr w) = \<lparr>init_kwargs = forwarded kw, user_middleware = []\<rparr>"
    by simp
  moreover from r(2) have "\<forall>b. b \<noteq> next_addr w \<longrightarrow> heap w' b = heap w b" by simp
  moreover have "\<forall>c v v'. attach fw self c v = Inr v' \<longrightarrow>
               user_middleware (heap v' (next_addr w)) =
                 user_middleware (heap v (next_addr w)) @ [attached_unit c]
               \<and> (\<forall>b. b \<noteq> next_addr w \<longrightarrow> heap v' b = heap v b)
               \<and> next_addr v' = next_addr v"
  proof (intro allI impI)
    fix c v v' assume "attach fw self c v = Inr v'"
    from attach_Inr [OF s this]
    show "user_middleware (heap v' (next_addr w)) =
                 user_middleware (heap v (next_addr w)) @ [attached_unit c]
               \<and> (\<forall>b. b \<noteq> next_addr w \<longrightarrow> heap v' b = heap v b)
               \<and> next_addr v' = next_addr v"
      by simp
  qed
  ultimately show ?thesis by blast
qed

theorem get_app_same_instance_witness:
  "FastAPIApp_init accepting \<lparr>app = None\<rparr> Map.empty world1 =
     Inr (\<lparr>app = Some 1\<rparr>, created (map_of default_metadata) world1)
   \<and> get_app \<lparr>app = Some 1\<rparr> = (Inr 1 :: string exn + addr)
   \<and> heap (created (map_of default_metadata) world1) 1 =
       \<lparr>init_kwargs = map_of default_metadata, user_middleware = []\<rparr>
   \<and> heap (created (map_of default_metadata) world1) 0 = heap world1 0"
proof -
  have n: "next_addr world1 = 1" by (simp add: world1_def)
  have h: "FastAPIApp_init accepting \<lparr>app = None\<rparr> Map.empty world1 =
     Inr (\<lparr>app = Some 1\<rparr>, created (forwarded Map.empty) world1)"
    by (simp add: FastAPIApp_init_cases accepting_def n)
  note t = get_app_same_instance [OF h, unfolded n forwarded_empty]
  from t have a: "get_app \<lparr>app = Some 1\<rparr> = (Inr 1 :: string exn + addr)" by blast
  from t have b: "heap (created (map_of default_metadata) world1) 1 =
       \<lparr>init_kwargs = map_of default_metadata, user_middleware = []\<rparr>" by blast
  from t have "\<forall>b. b \<noteq> 1 \<longrightarrow> heap (created (map_of default_metadata) world1) b = heap world1 b"
    by blast
  then have c: "heap (created (map_of default_metadata) world1) 0 = heap world1 0" by simp
  from h a b c show ?thesis by (simp add: forwarded_empty)
qed

text \<open>
  C8. The wrapper validates nothing itself. The constructor fails exactly when the
  framework's constructor raises on the forwarded arguments, and then with that same
  exception, and succeeds otherwise; in the forwarded arguments every option that is
  not a named field is as the caller gave it. An attachment on a constructed builder
  fails exactly when the framework raises on the unit, with that same exception, and
  installs the unit otherwise.
\<close>

theorem no_validation_of_its_own:
  "(\<forall>e. FastAPIApp_init fw self kw w = Inl e \<longleftrightarrow>
         (\<exists>x. e = Raised x \<and> FastAPI_raises fw (forwarded kw) = Some x))
   \<and> (FastAPI_raises fw (forwarded kw) = None \<longrightarrow>
         FastAPIApp_init fw self kw w =
           Inr (self\<lparr>app := Some (next_addr w)\<rparr>, created (forwarded kw) w))
   \<and> (\<forall>k. k \<notin> set init_params \<longrightarrow> forwarded kw k = kw k)
   \<and> (\<forall>a. app self = Some a \<longrightarrow>
         (\<forall>e. attach fw self c w = Inl e \<longleftrightarrow>
            (\<exists>x. e = Raised x
               \<and> add_middleware_raises fw (heap w a) (cls (attached_unit c))
                    (options (attached_unit c)) = Some x))
         \<and> (add_middleware_raises fw (heap w a) (cls (attached_unit c))
                    (options (attached_unit c)) = None \<longrightarrow>
              attach fw self c w = Inr (install a (attached_unit c) w)))"
proof (intro conjI allI impI)
  fix e
  show "FastAPIApp_init fw self kw w = Inl e \<longleftrightarrow>
         (\<exists>x. e = Raised x \<and> FastAPI_raises fw (forwarded kw) = Some x)"
    by (auto simp: FastAPIApp_init_cases split: option.splits)
next
  assume "FastAPI_raises fw (forwarded kw) = None"
  then show "FastAPIApp_init fw self kw w =
           Inr (self\<lparr>app := Some (next_addr w)\<rparr>, created (forwarded kw) w)"
    by (simp add: FastAPIApp_init_cases)
next
  fix k assume "k \<notin> set init_params"
  then show "forwarded kw k = kw k" by (rule forwarded_extra)
next
  fix a e assume "app self = Some a"
  then show "attach fw self c w = Inl e \<longleftrightarrow>
            (\<exists>x. e = Raised x
               \<and> add_middleware_raises fw (heap w a) (cls (attached_unit c))
                    (options (attached_unit c)) = Some x)"
    by (auto simp: attach_constructed app_add_middleware_cases split: option.splits)
next
  fix a assume "app self = Some a"
    and "add_middleware_raises fw (heap w a) (cls (attached_unit c))
                    (options (attached_unit c)) = None"
  then show "attach fw self c w = Inr (install a (attached_unit c) w)"
    by (simp add: attach_constructed app_add_middleware_cases unit_eta)
qed

theorem no_validation_witness:
  "FastAPI_raises accepting (forwarded [''version'' \<mapsto> PyStr ''not a version'', ''debug'' \<mapsto> PyInt 7]) = None
   \<and> FastAPIApp_init accepting \<lparr>app = None\<rparr>
        [''version'' \<mapsto> PyStr ''not a version'', ''debug'' \<mapsto> PyInt 7] world0 =
       Inr (\<lparr>app = Some 0\<rparr>,
            created (forwarded [''version'' \<mapsto> PyStr ''not a version'', ''debug'' \<mapsto> PyInt 7]) world0)
   \<and> forwarded [''version'' \<mapsto> PyStr ''not a version'', ''debug'' \<mapsto> PyInt 7] ''debug'' =
       Some (PyInt 7)
   \<and> attach strict_hosts \<lparr>app = Some 0\<rparr> (AddTrustedHost (PySeq [])) world1 =
       Inl (Raised ''allowed_hosts is empty'')"
proof -
  define kw :: kwargs where
    "kw = [''version'' \<mapsto> PyStr ''not a version'', ''debug'' \<mapsto> PyInt 7]"
  note t = no_validation_of_its_own [of accepting "\<lparr>app = None\<rparr>" kw world0]
  have h: "FastAPI_raises accepting (forwarded kw) = None" by (simp add: accepting_def)
  from t h have a: "FastAPIApp_init accepting \<lparr>app = None\<rparr> kw world0 =
       Inr (\<lparr>app = Some 0\<rparr>, created (forwarded kw) world0)"
    by (simp add: world0_def)
  have "''debug'' \<notin> set init_params" by (simp add: init_params_def)
  with t have "forwarded kw ''debug'' = kw ''debug''" by blast
  then have b: "forwarded kw ''debug'' = Some (PyInt 7)" by (simp add: kw_def)
  have s: "app \<lparr>app = Some 0\<rparr> = Some 0" by simp
  have r: "add_middleware_raises strict_hosts (heap world1 0)
             (cls (attached_unit (AddTrustedHost (PySeq []))))
             (options (attached_unit (AddTrustedHost (PySeq [])))) =
           Some ''allowed_hosts is empty''"
    by (simp add: strict_hosts_def attached_unit_def)
  from no_validation_of_its_own
         [of strict_hosts "\<lparr>app = Some 0\<rparr>" Map.empty world1 "AddTrustedHost (PySeq [])"] s r
  have c: "attach strict_hosts \<lparr>app = Some 0\<rparr> (AddTrustedHost (PySeq [])) world1 =
       Inl (Raised ''allowed_hosts is empty'')"
    by blast
  from h a b c show ?thesis unfolding kw_def by blast
qed

text \<open>
  C9. When the framework accepts the default metadata, constructing the builder with no
  arguments succeeds, and the application holds exactly the defaults: title
  \<^verbatim>\<open>"FastAPI"\<close>, description \<^verbatim>\<open>""\<close>, version \<^verbatim>\<open>"0.1.0"\<close>, docs_url
  \<^verbatim>\<open>"/docs"\<close>, redoc_url \<^verbatim>\<open>"/redoc"\<close>, openapi_url \<^verbatim>\<open>"/openapi.json"\<close>,
  openapi_prefix \<^verbatim>\<open>""\<close>, and \<^verbatim>\<open>None\<close> for openapi_tags, terms_of_service,
  contact and license_info; its middleware chain is empty.
\<close>

theorem init_defaults:
  assumes "FastAPI_raises fw (map_of default_metadata) = None"
  shows "\<exists>w'. FastAPIApp_init fw self Map.empty w = Inr (self\<lparr>app := Some (next_addr w)\<rparr>, w')
           \<and> heap w' (next_addr w) =
               \<lparr>init_kwargs =
                  [''title'' \<mapsto> PyStr ''FastAPI'',
                   ''description'' \<mapsto> PyStr '''',
                   ''version'' \<mapsto> PyStr ''0.1.0'',
                   ''docs_url'' \<mapsto> PyStr ''/docs'',
                   ''redoc_url'' \<mapsto> PyStr ''/redoc'',
                   ''openapi_url'' \<mapsto> PyStr ''/openapi.json'',
                   ''openapi_prefix'' \<mapsto> PyStr '''',
                   ''openapi_tags'' \<mapsto> PyNone,
                   ''terms_of_service'' \<mapsto> PyNone,
                   ''contact'' \<mapsto> PyNone,
                   ''license_info'' \<mapsto> PyNone],
                user_middleware = []\<rparr>"
proof -
  have m: "map_of default_metadata =
             [''title'' \<mapsto> PyStr ''FastAPI'',
              ''description'' \<mapsto> PyStr '''',
              ''version'' \<mapsto> PyStr ''0.1.0'',
              ''docs_url'' \<mapsto> PyStr ''/docs'',
              ''redoc_url'' \<mapsto> PyStr ''/redoc'',
              ''openapi_url'' \<mapsto> PyStr ''/openapi.json'',
              ''openapi_prefix'' \<mapsto> PyStr '''',
              ''openapi_tags'' \<mapsto> PyNone,
              ''terms_of_service'' \<mapsto> PyNone,
              ''contact'' \<mapsto> PyNone,
              ''license_info'' \<mapsto> PyNone]"
    by (rule ext) (simp add: default_metadata_def)
  from assms have "FastAPIApp_init fw self Map.empty w =
      Inr (self\<lparr>app := Some (next_addr w)\<rparr>, created (map_of default_metadata) w)"
    by (simp add: FastAPIApp_init_cases forwarded_empty)
  moreover have "heap (created (map_of default_metadata) w) (next_addr w) =
      \<lparr>init_kwargs = map_of default_metadata, user_middleware = []\<rparr>"
    by simp
  ultimately show ?thesis unfolding m by blast
qed

theorem init_defaults_witness:
  "FastAPI_raises accepting (map_of default_metadata) = None
   \<and> FastAPIApp_init accepting \<lparr>app = None\<rparr> Map.empty world0 =
       Inr (\<lparr>app = Some 0\<rparr>, created (map_of default_metadata) world0)
   \<and> init_kwargs (heap (created (map_of default_metadata) world0) 0) ''title'' =
       Some (PyStr ''FastAPI'')
   \<and> init_kwargs (heap (created (map_of default_metadata) world0) 0) ''contact'' = Some PyNone"
proof -
  have n: "next_addr world0 = 0" by (simp add: world0_def)
  have h: "FastAPI_raises accepting (map_of default_metadata) = None"
    by (simp add: accepting_def)
  from init_defaults [OF h, of "\<lparr>app = None\<rparr>" world0] obtain w' where
    a: "FastAPIApp_init accepting \<lparr>app = None\<rparr> Map.empty world0 = Inr (\<lparr>app = Some 0\<rparr>, w')"
    and b: "init_kwargs (heap w' 0) ''title'' = Some (PyStr ''FastAPI'')"
    and c: "init_kwargs (heap w' 0) ''contact'' = Some PyNone"
    by (auto simp: n)
  from a have "w' = created (map_of default_metadata) world0"
    by (simp add: FastAPIApp_init_cases accepting_def forwarded_empty)
  with h a b c show ?thesis by blast
qed

text \<open>
  C10. An attachment call that returns leaves the metadata of every application object
  as it was, makes no new object, and leaves every object other than the builder's own
  application untouched: only the middleware chain of that one application changes.
\<close>

theorem attachment_frame:
  assumes "attach fw self c w = Inr w'"
  shows "(\<forall>b. init_kwargs (heap w' b) = init_kwargs (heap w b))
         \<and> next_addr w' = next_addr w
         \<and> (\<forall>b. app self \<noteq> Some b \<longrightarrow> heap w' b = heap w b)"
proof (cases "app self")
  case None
  with assms show ?thesis by (simp add: attach_unconstructed)
next
  case (Some a)
  from attach_Inr [OF Some assms] Some show ?thesis by simp
qed

theorem attachment_frame_witness:
  "attach accepting \<lparr>app = Some 0\<rparr> AddHttpsRedirect world1 =
     Inr (install 0 \<lparr>cls = HTTPSRedirectMiddleware, options = Map.empty\<rparr> world1)
   \<and> init_kwargs (heap (install 0 \<lparr>cls = HTTPSRedirectMiddleware, options = Map.empty\<rparr> world1) 0) =
       init_kwargs (heap world1 0)
   \<and> next_addr (install 0 \<lparr>cls = HTTPSRedirectMiddleware, options = Map.empty\<rparr> world1) = Suc 0
   \<and> heap (install 0 \<lparr>cls = HTTPSRedirectMiddleware, options = Map.empty\<rparr> world1) 1 =
       heap world1 1"
proof -
  have h: "attach accepting \<lparr>app = Some 0\<rparr> AddHttpsRedirect world1 =
     Inr (install 0 \<lparr>cls = HTTPSRedirectMiddleware, options = Map.empty\<rparr> world1)"
    by (simp add: add_https_redirect_middleware_def self_app_def app_add_middleware_cases
          accepting_def)
  note t = attachment_frame [OF h]
  from t have a: "init_kwargs (heap (install 0 \<lparr>cls = HTTPSRedirectMiddleware, options = Map.empty\<rparr> world1) 0) =
       init_kwargs (heap world1 0)" by blast
  from t have "next_addr (install 0 \<lparr>cls = HTTPSRedirectMiddleware, options = Map.empty\<rparr> world1) =
       next_addr world1" by blast
  then have b: "next_addr (install 0 \<lparr>cls = HTTPSRedirectMiddleware, options = Map.empty\<rparr> world1) = Suc 0"
    by (simp add: world1_def)
  have "app \<lparr>app = Some 0\<rparr> \<noteq> Some 1" by simp
  with t have c: "heap (install 0 \<lparr>cls = HTTPSRedirectMiddleware, options = Map.empty\<rparr> world1) 1 =
       heap world1 1" by blast
  from h a b c show ?thesis by blast
qed

end
